theory Spec2Isabelle
  imports Complex_Main
begin

section \<open>The viewer camera (src/viewer/camera.js)\<close>

text \<open>
  The camera keeps eye, target and up, a world-axis convention, a world scale, two flags and
  a lazily rebuilt view matrix. Numbers are idealised: every JavaScript number and every
  Float32Array cell is a real, so rounding, NaN and infinities are outside this development.
  A parameter that JavaScript tests for falsiness (\<open>x || default\<close>) is an option, \<open>None\<close>
  standing for undefined or null.

  The module keeps seven scratch buffers (\<open>tempMat4\<close>, \<open>tempMat4b\<close>, \<open>tempVec3\<close> ...
  \<open>tempVec3e\<close>) that every operation reuses. Two library calls leave their output buffer
  as it was on degenerate input, so the buffers are part of the state.
\<close>

subsection \<open>The vector and matrix library\<close>

type_synonym vec3 = "real \<times> real \<times> real"

text \<open>A matrix is the flat array the library uses: 16 cells for a mat4, 9 for a mat3,
  column after column.\<close>

type_synonym mat = "real list"

text \<open>Modelled from the spec: the constant \<open>glMatrix.EPSILON\<close> of the vector library
  (gl-matrix, loaded as the globals \<open>vec3\<close>, \<open>mat3\<close>, \<open>mat4\<close>) is not under src/. It is the
  library's threshold below which an axis or a distance counts as zero.\<close>

definition EPSILON :: real where
  "EPSILON = 1 / 1000000"

text \<open>Modelled from the spec: \<open>vec3.subtract\<close>, \<open>vec3.add\<close>, \<open>vec3.scale\<close>,
  \<open>vec3.dot\<close> and \<open>vec3.cross\<close> of the vector library are not under src/. They are the
  componentwise difference, sum and scalar multiple, the dot product and the cross product.\<close>

fun vec3_subtract :: "vec3 \<Rightarrow> vec3 \<Rightarrow> vec3" where
  "vec3_subtract (a0, a1, a2) (b0, b1, b2) = (a0 - b0, a1 - b1, a2 - b2)"

fun vec3_add :: "vec3 \<Rightarrow> vec3 \<Rightarrow> vec3" where
  "vec3_add (a0, a1, a2) (b0, b1, b2) = (a0 + b0, a1 + b1, a2 + b2)"

fun vec3_scale :: "vec3 \<Rightarrow> real \<Rightarrow> vec3" where
  "vec3_scale (a0, a1, a2) b = (a0 * b, a1 * b, a2 * b)"

fun vec3_dot :: "vec3 \<Rightarrow> vec3 \<Rightarrow> real" where
  "vec3_dot (a0, a1, a2) (b0, b1, b2) = a0 * b0 + a1 * b1 + a2 * b2"

fun vec3_cross :: "vec3 \<Rightarrow> vec3 \<Rightarrow> vec3" where
  "vec3_cross (ax, ay, az) (bx, by, bz) =
     (ay * bz - az * by, az * bx - ax * bz, ax * by - ay * bx)"

text \<open>Modelled from the spec: \<open>vec3.normalize(out, a)\<close> of the vector library is not under
  src/. It scales \<open>a\<close> to unit length into \<open>out\<close>. The spec says nothing of a vector of
  length zero; the library, as it is written, then writes nothing, so \<open>out\<close> keeps its
  previous content (first argument).\<close>

fun vec3_normalize :: "vec3 \<Rightarrow> vec3 \<Rightarrow> vec3" where
  "vec3_normalize out (x, y, z) =
     (let len = x * x + y * y + z * z in
      if len > 0 then (x * (1 / sqrt len), y * (1 / sqrt len), z * (1 / sqrt len))
      else out)"

text \<open>Modelled from the spec: \<open>vec3.transformMat4(out, a, m)\<close> of the vector library is not
  under src/. It applies the 4x4 matrix \<open>m\<close> to the point \<open>a\<close> (fourth coordinate 1) and
  divides by the resulting fourth coordinate \<open>w\<close>, taking 1 for a zero \<open>w\<close>.\<close>

fun vec3_transformMat4 :: "vec3 \<Rightarrow> mat \<Rightarrow> vec3" where
  "vec3_transformMat4 (x, y, z) m =
     (let w0 = m ! 3 * x + m ! 7 * y + m ! 11 * z + m ! 15;
          w = (if w0 = 0 then 1 else w0)
      in ((m ! 0 * x + m ! 4 * y + m ! 8 * z + m ! 12) / w,
          (m ! 1 * x + m ! 5 * y + m ! 9 * z + m ! 13) / w,
          (m ! 2 * x + m ! 6 * y + m ! 10 * z + m ! 14) / w))"

text \<open>Modelled from the spec: \<open>mat4.create\<close>, \<open>mat4.identity\<close> and \<open>mat3.create\<close> of the
  vector library are not under src/. Each yields the identity matrix.\<close>

definition mat4_identity :: mat where
  "mat4_identity = [1, 0, 0, 0,  0, 1, 0, 0,  0, 0, 1, 0,  0, 0, 0, 1]"

definition mat4_create :: mat where
  "mat4_create = mat4_identity"

definition mat3_create :: mat where
  "mat3_create = [1, 0, 0,  0, 1, 0,  0, 0, 1]"

text \<open>Modelled from the spec: \<open>mat4.fromRotation(out, rad, axis)\<close> of the vector library is
  not under src/. It builds the matrix of the rotation by \<open>rad\<close> radians about \<open>axis\<close>,
  which it normalises first. The spec says nothing of a short axis; the library, as it is
  written, returns null and writes nothing when the axis is shorter than \<open>EPSILON\<close>, and the
  camera ignores the returned value, so \<open>out\<close> keeps its previous content (first argument).\<close>

fun mat4_fromRotation :: "mat \<Rightarrow> real \<Rightarrow> vec3 \<Rightarrow> mat" where
  "mat4_fromRotation out rad (ax, ay, az) =
     (let len = sqrt (ax * ax + ay * ay + az * az) in
      if \<bar>len\<bar> < EPSILON then out
      else
        let x = ax * (1 / len); y = ay * (1 / len); z = az * (1 / len);
            s = sin rad; c = cos rad; t = 1 - c
        in [x * x * t + c, y * x * t + z * s, z * x * t - y * s, 0,
            x * y * t - z * s, y * y * t + c, z * y * t + x * s, 0,
            x * z * t + y * s, y * z * t - x * s, z * z * t + c, 0,
            0, 0, 0, 1])"

text \<open>Modelled from the spec: \<open>mat4.scale(out, a, v)\<close> of the vector library is not under
  src/. It scales the first three columns of \<open>a\<close> by the components of \<open>v\<close>.\<close>

fun mat4_scale :: "mat \<Rightarrow> vec3 \<Rightarrow> mat" where
  "mat4_scale a (x, y, z) =
     [a ! 0 * x, a ! 1 * x, a ! 2 * x, a ! 3 * x,
      a ! 4 * y, a ! 5 * y, a ! 6 * y, a ! 7 * y,
      a ! 8 * z, a ! 9 * z, a ! 10 * z, a ! 11 * z,
      a ! 12, a ! 13, a ! 14, a ! 15]"

text \<open>Modelled from the spec: \<open>mat4.multiply(out, a, b)\<close> of the vector library is not under
  src/. It is the matrix product \<open>a b\<close> on column-major arrays; it reads each column of \<open>b\<close>
  before it writes that column of \<open>out\<close>, so \<open>out\<close> may be \<open>b\<close>.\<close>

definition mat4_multiply :: "mat \<Rightarrow> mat \<Rightarrow> mat" where
  "mat4_multiply a b =
     (let a00 = a ! 0; a01 = a ! 1; a02 = a ! 2; a03 = a ! 3;
          a10 = a ! 4; a11 = a ! 5; a12 = a ! 6; a13 = a ! 7;
          a20 = a ! 8; a21 = a ! 9; a22 = a ! 10; a23 = a ! 11;
          a30 = a ! 12; a31 = a ! 13; a32 = a ! 14; a33 = a ! 15
      in [b ! 0 * a00 + b ! 1 * a10 + b ! 2 * a20 + b ! 3 * a30,
          b ! 0 * a01 + b ! 1 * a11 + b ! 2 * a21 + b ! 3 * a31,
          b ! 0 * a02 + b ! 1 * a12 + b ! 2 * a22 + b ! 3 * a32,
          b ! 0 * a03 + b ! 1 * a13 + b ! 2 * a23 + b ! 3 * a33,
          b ! 4 * a00 + b ! 5 * a10 + b ! 6 * a20 + b ! 7 * a30,
          b ! 4 * a01 + b ! 5 * a11 + b ! 6 * a21 + b ! 7 * a31,
          b ! 4 * a02 + b ! 5 * a12 + b ! 6 * a22 + b ! 7 * a32,
          b ! 4 * a03 + b ! 5 * a13 + b ! 6 * a23 + b ! 7 * a33,
          b ! 8 * a00 + b ! 9 * a10 + b ! 10 * a20 + b ! 11 * a30,
          b ! 8 * a01 + b ! 9 * a11 + b ! 10 * a21 + b ! 11 * a31,
          b ! 8 * a02 + b ! 9 * a12 + b ! 10 * a22 + b ! 11 * a32,
          b ! 8 * a03 + b ! 9 * a13 + b ! 10 * a23 + b ! 11 * a33,
          b ! 12 * a00 + b ! 13 * a10 + b ! 14 * a20 + b ! 15 * a30,
          b ! 12 * a01 + b ! 13 * a11 + b ! 14 * a21 + b ! 15 * a31,
          b ! 12 * a02 + b ! 13 * a12 + b ! 14 * a22 + b ! 15 * a32,
          b ! 12 * a03 + b ! 13 * a13 + b ! 14 * a23 + b ! 15 * a33])"

text \<open>Modelled from the spec: \<open>mat4.lookAt(out, eye, center, up)\<close> of the vector library is
  not under src/. It builds the look-at matrix: the identity when eye and center agree within
  \<open>EPSILON\<close> in every coordinate, otherwise the frame \<open>z\<close> = unit (eye - center),
  \<open>x\<close> = unit (up \<times> z), \<open>y\<close> = unit (z \<times> x) (a zero vector where the length is zero)
  and the translation that moves the eye to the origin.\<close>

definition unit_or_zero :: "vec3 \<Rightarrow> vec3" where
  "unit_or_zero v =
     (let len = sqrt (vec3_dot v v) in
      if len = 0 then (0, 0, 0) else vec3_scale v (1 / len))"

fun mat4_lookAt :: "vec3 \<Rightarrow> vec3 \<Rightarrow> vec3 \<Rightarrow> mat" where
  "mat4_lookAt (eyex, eyey, eyez) (centerx, centery, centerz) (upx, upy, upz) =
     (if \<bar>eyex - centerx\<bar> < EPSILON \<and> \<bar>eyey - centery\<bar> < EPSILON
         \<and> \<bar>eyez - centerz\<bar> < EPSILON
      then mat4_identity
      else
        let d = (eyex - centerx, eyey - centery, eyez - centerz);
            zv = vec3_scale d (1 / sqrt (vec3_dot d d));
            xv = unit_or_zero (vec3_cross (upx, upy, upz) zv);
            yv = unit_or_zero (vec3_cross zv xv)
        in (case (xv, yv, zv) of ((x0, x1, x2), (y0, y1, y2), (z0, z1, z2)) \<Rightarrow>
             [x0, y0, z0, 0,
              x1, y1, z1, 0,
              x2, y2, z2, 0,
              - (x0 * eyex + x1 * eyey + x2 * eyez),
              - (y0 * eyex + y1 * eyey + y2 * eyez),
              - (z0 * eyex + z1 * eyey + z2 * eyez),
              1]))"

text \<open>Modelled from the spec: \<open>mat3.fromMat4(out, a)\<close>, \<open>mat3.invert(out, a)\<close> and
  \<open>mat3.transpose(out, a)\<close> of the vector library are not under src/. The first copies
  the upper-left 3x3 block, the second inverts a 3x3 matrix and writes nothing when the
  determinant is zero, the third transposes. They write the first nine cells of \<open>out\<close>;
  the camera passes a 16-cell buffer, whose other cells stay.\<close>

definition mat3_fromMat4 :: "mat \<Rightarrow> mat \<Rightarrow> mat" where
  "mat3_fromMat4 out a =
     [a ! 0, a ! 1, a ! 2, a ! 4, a ! 5, a ! 6, a ! 8, a ! 9, a ! 10] @ drop 9 out"

definition mat3_invert :: "mat \<Rightarrow> mat \<Rightarrow> mat" where
  "mat3_invert out a =
     (let a00 = a ! 0; a01 = a ! 1; a02 = a ! 2;
          a10 = a ! 3; a11 = a ! 4; a12 = a ! 5;
          a20 = a ! 6; a21 = a ! 7; a22 = a ! 8;
          b01 = a22 * a11 - a12 * a21;
          b11 = - a22 * a10 + a12 * a20;
          b21 = a21 * a10 - a11 * a20;
          det = a00 * b01 + a01 * b11 + a02 * b21
      in if det = 0 then out
         else [b01 * (1 / det),
               (- a22 * a01 + a02 * a21) * (1 / det),
               (a12 * a01 - a02 * a11) * (1 / det),
               b11 * (1 / det),
               (a22 * a00 - a02 * a20) * (1 / det),
               (- a12 * a00 + a02 * a10) * (1 / det),
               b21 * (1 / det),
               (- a21 * a00 + a01 * a20) * (1 / det),
               (a11 * a00 - a01 * a10) * (1 / det)] @ drop 9 out)"

definition mat3_transpose :: "mat \<Rightarrow> mat \<Rightarrow> mat" where
  "mat3_transpose out a =
     [a ! 0, a ! 3, a ! 6, a ! 1, a ! 4, a ! 7, a ! 2, a ! 5, a ! 8] @ drop 9 out"

subsection \<open>The camera and the module's scratch buffers\<close>

text \<open>The projection strategies are built by the classes Perspective and Orthographic,
  which are not under src/. The camera reads only their \<open>type\<close> and \<open>projMatrix\<close>
  properties, so a strategy is those two values, and the two instances are parameters of the
  constructor.\<close>

record projection_obj =
  ptype :: string
  projMatrix :: mat

datatype projection_ref = ThePerspective | TheOrthographic

type_synonym aabb = "real \<times> real \<times> real \<times> real \<times> real \<times> real"

datatype error = RangeError

record camera =
  viewer_dirty :: bool
  viewer_modelBounds :: aabb
  console :: "string list"
  perspective :: projection_obj
  orthographic :: projection_obj
  projection :: projection_ref
  viewMatrix :: mat
  viewNormalMatrix :: mat
  worldScale :: real
  eye :: vec3
  target :: vec3
  up :: vec3
  worldAxis :: "real list"
  worldUp :: vec3
  worldRight :: vec3
  worldForward :: vec3
  gimbalLock :: bool
  constrainPitch :: bool
  dirty :: bool
  tempMat4 :: mat
  tempMat4b :: mat
  tempVec3 :: vec3
  tempVec3b :: vec3
  tempVec3c :: vec3
  tempVec3d :: vec3
  tempVec3e :: vec3

text \<open>The constructor, in a freshly loaded module: the scratch buffers hold what
  \<open>mat4.create\<close> and \<open>vec3.create\<close> return.\<close>

definition new_Camera :: "bool \<Rightarrow> aabb \<Rightarrow> projection_obj \<Rightarrow> projection_obj \<Rightarrow> camera" where
  "new_Camera vdirty bounds persp ortho =
     \<lparr> viewer_dirty = vdirty,
       viewer_modelBounds = bounds,
       console = [],
       perspective = persp,
       orthographic = ortho,
       projection = ThePerspective,
       viewMatrix = mat4_create,
       viewNormalMatrix = mat3_create,
       worldScale = 1,
       eye = (0, 0, -10),
       target = (0, 0, 0),
       up = (0, 1, 0),
       worldAxis = [1, 0, 0, 0, 1, 0, 0, 0, 1],
       worldUp = (0, 1, 0),
       worldRight = (1, 0, 0),
       worldForward = (0, 0, -1),
       gimbalLock = True,
       constrainPitch = True,
       dirty = True,
       tempMat4 = mat4_create,
       tempMat4b = mat4_create,
       tempVec3 = (0, 0, 0),
       tempVec3b = (0, 0, 0),
       tempVec3c = (0, 0, 0),
       tempVec3d = (0, 0, 0),
       tempVec3e = (0, 0, 0) \<rparr>"

definition setDirty :: "camera \<Rightarrow> camera" where
  "setDirty c = c\<lparr>dirty := True, viewer_dirty := True\<rparr>"

definition build :: "camera \<Rightarrow> camera" where
  "build c =
     (if dirty c then
        let c = c\<lparr>viewMatrix := mat4_lookAt (eye c) (target c) (up c)\<rparr>;
            c = c\<lparr>tempVec3 := (worldScale c, worldScale c, worldScale c)\<rparr>;
            c = c\<lparr>tempMat4 := mat4_identity\<rparr>;
            c = c\<lparr>tempMat4 := mat4_scale (tempMat4 c) (tempVec3 c)\<rparr>;
            c = c\<lparr>viewMatrix := mat4_multiply (tempMat4 c) (viewMatrix c)\<rparr>;
            c = c\<lparr>tempMat4b := mat3_fromMat4 (tempMat4b c) (viewMatrix c)\<rparr>;
            c = c\<lparr>tempMat4b := mat3_invert (tempMat4b c) (tempMat4b c)\<rparr>;
            c = c\<lparr>viewNormalMatrix := mat3_transpose (viewNormalMatrix c) (tempMat4b c)\<rparr>
        in c\<lparr>dirty := False\<rparr>
      else c)"

text \<open>A getter that may rebuild returns the value read and the camera after the read.\<close>

definition get_viewMatrix :: "camera \<Rightarrow> mat \<times> camera" where
  "get_viewMatrix c = (let c = (if dirty c then build c else c) in (viewMatrix c, c))"

definition get_viewNormalMatrix :: "camera \<Rightarrow> mat \<times> camera" where
  "get_viewNormalMatrix c =
     (let c = (if dirty c then build c else c) in (viewNormalMatrix c, c))"

definition active :: "camera \<Rightarrow> projection_obj" where
  "active c = (case projection c of ThePerspective \<Rightarrow> perspective c
                                  | TheOrthographic \<Rightarrow> orthographic c)"

definition get_projMatrix :: "camera \<Rightarrow> mat" where
  "get_projMatrix c = projMatrix (active c)"

definition get_projectionType :: "camera \<Rightarrow> string" where
  "get_projectionType c = ptype (active c)"

text \<open>\<open>console.log\<close> appends its line to the console.\<close>

definition set_projectionType :: "camera \<Rightarrow> string \<Rightarrow> camera" where
  "set_projectionType c projectionType =
     (if projectionType = ''perspective'' then c\<lparr>projection := ThePerspective\<rparr>
      else if projectionType = ''orthographic'' then c\<lparr>projection := TheOrthographic\<rparr>
      else c\<lparr>console := console c @ [''Unsupported projectionType: '' @ projectionType]\<rparr>)"

text \<open>\<open>worldScale || 1.0\<close>: zero and an absent value give 1.\<close>

definition set_worldScale :: "camera \<Rightarrow> real option \<Rightarrow> camera" where
  "set_worldScale c w =
     setDirty (c\<lparr>worldScale := (case w of None \<Rightarrow> 1
                                          | Some x \<Rightarrow> if x = 0 then 1 else x)\<rparr>)"

definition set_eye :: "camera \<Rightarrow> vec3 option \<Rightarrow> camera" where
  "set_eye c v = setDirty (c\<lparr>eye := (case v of None \<Rightarrow> (0, 0, -10) | Some e \<Rightarrow> e)\<rparr>)"

definition set_target :: "camera \<Rightarrow> vec3 option \<Rightarrow> camera" where
  "set_target c v = setDirty (c\<lparr>target := (case v of None \<Rightarrow> (0, 0, 0) | Some t \<Rightarrow> t)\<rparr>)"

definition set_up :: "camera \<Rightarrow> vec3 option \<Rightarrow> camera" where
  "set_up c v = setDirty (c\<lparr>up := (case v of None \<Rightarrow> (0, 1, 0) | Some u \<Rightarrow> u)\<rparr>)"

definition set_gimbalLock :: "camera \<Rightarrow> bool \<Rightarrow> camera" where
  "set_gimbalLock c b = c\<lparr>gimbalLock := b\<rparr>"

definition set_constrainPitch :: "camera \<Rightarrow> bool \<Rightarrow> camera" where
  "set_constrainPitch c b = c\<lparr>constrainPitch := b\<rparr>"

text \<open>\<open>TypedArray.prototype.set\<close> copies the source over the first cells of the
  destination and throws a RangeError, before it writes anything, when the source is longer.\<close>

definition typedarray_set :: "real list \<Rightarrow> real list \<Rightarrow> error + real list" where
  "typedarray_set dst src =
     (if length src > length dst then Inl RangeError
      else Inr (src @ drop (length src) dst))"

definition set_worldAxis :: "camera \<Rightarrow> real list option \<Rightarrow> error + camera" where
  "set_worldAxis c a =
     (case typedarray_set (worldAxis c)
             (case a of None \<Rightarrow> [1, 0, 0, 0, 1, 0, 0, 0, 1] | Some xs \<Rightarrow> xs) of
        Inl e \<Rightarrow> Inl e
      | Inr wa \<Rightarrow>
          let c = c\<lparr>worldAxis := wa\<rparr>;
              c = c\<lparr>worldRight := (worldAxis c ! 0, worldAxis c ! 1, worldAxis c ! 2)\<rparr>;
              c = c\<lparr>worldUp := (worldAxis c ! 3, worldAxis c ! 4, worldAxis c ! 5)\<rparr>;
              c = c\<lparr>worldForward := (worldAxis c ! 6, worldAxis c ! 7, worldAxis c ! 8)\<rparr>
          in Inr (setDirty c))"

subsection \<open>Navigation\<close>

text \<open>The source's degree-to-radian constant.\<close>

definition DEGTORAD :: real where
  "DEGTORAD = 0.0174532925"

definition orbitYaw :: "camera \<Rightarrow> real \<Rightarrow> camera" where
  "orbitYaw c degrees =
     (let c = c\<lparr>tempVec3 := vec3_subtract (eye c) (target c)\<rparr>;
          c = c\<lparr>tempMat4 := mat4_fromRotation (tempMat4 c) (degrees * DEGTORAD)
                                (if gimbalLock c then worldUp c else up c)\<rparr>;
          c = c\<lparr>tempVec3 := vec3_transformMat4 (tempVec3 c) (tempMat4 c)\<rparr>;
          c = c\<lparr>eye := vec3_add (target c) (tempVec3 c)\<rparr>;
          c = c\<lparr>up := vec3_transformMat4 (up c) (tempMat4 c)\<rparr>
      in setDirty c)"

definition orbitPitch :: "camera \<Rightarrow> real \<Rightarrow> camera" where
  "orbitPitch c degrees =
     (let c = c\<lparr>tempVec3 := vec3_subtract (eye c) (target c)\<rparr>;
          c = c\<lparr>tempVec3c := vec3_normalize (tempVec3c c) (tempVec3 c)\<rparr>;
          c = c\<lparr>tempVec3d := vec3_normalize (tempVec3d c) (up c)\<rparr>;
          c = c\<lparr>tempVec3b := vec3_cross (tempVec3c c) (tempVec3d c)\<rparr>;
          c = c\<lparr>tempMat4 := mat4_fromRotation (tempMat4 c) (degrees * DEGTORAD) (tempVec3b c)\<rparr>;
          c = c\<lparr>tempVec3 := vec3_transformMat4 (tempVec3 c) (tempMat4 c)\<rparr>;
          c = c\<lparr>tempVec3d := vec3_transformMat4 (up c) (tempMat4 c)\<rparr>
      in if constrainPitch c \<and> vec3_dot (tempVec3d c) (worldUp c) / DEGTORAD < 1 then c
         else
           let c = c\<lparr>up := tempVec3d c\<rparr>;
               c = c\<lparr>eye := vec3_add (target c) (tempVec3 c)\<rparr>
           in setDirty c)"

definition yaw :: "camera \<Rightarrow> real \<Rightarrow> camera" where
  "yaw c degrees =
     (let c = c\<lparr>tempVec3 := vec3_subtract (target c) (eye c)\<rparr>;
          c = c\<lparr>tempMat4 := mat4_fromRotation (tempMat4 c) (degrees * DEGTORAD)
                                (if gimbalLock c then worldUp c else up c)\<rparr>;
          c = c\<lparr>tempVec3 := vec3_transformMat4 (tempVec3 c) (tempMat4 c)\<rparr>;
          c = c\<lparr>target := vec3_add (eye c) (tempVec3 c)\<rparr>;
          c = (if gimbalLock c then c\<lparr>up := vec3_transformMat4 (up c) (tempMat4 c)\<rparr> else c)
      in setDirty c)"

definition pitch :: "camera \<Rightarrow> real \<Rightarrow> camera" where
  "pitch c degrees =
     (let c = c\<lparr>tempVec3 := vec3_subtract (target c) (eye c)\<rparr>;
          c = c\<lparr>tempVec3c := vec3_normalize (tempVec3c c) (tempVec3 c)\<rparr>;
          c = c\<lparr>tempVec3d := vec3_normalize (tempVec3d c) (up c)\<rparr>;
          c = c\<lparr>tempVec3b := vec3_cross (tempVec3c c) (tempVec3d c)\<rparr>;
          c = c\<lparr>tempMat4 := mat4_fromRotation (tempMat4 c) (degrees * DEGTORAD) (tempVec3b c)\<rparr>;
          c = c\<lparr>tempVec3 := vec3_transformMat4 (tempVec3 c) (tempMat4 c)\<rparr>;
          c = c\<lparr>tempVec3d := vec3_transformMat4 (up c) (tempMat4 c)\<rparr>
      in if constrainPitch c \<and> vec3_dot (tempVec3d c) (worldUp c) / DEGTORAD < 1 then c
         else
           let c = c\<lparr>up := tempVec3d c\<rparr>;
               c = c\<lparr>target := vec3_add (eye c) (tempVec3 c)\<rparr>
           in setDirty c)"

text \<open>In \<open>pan\<close> the local \<open>eyeToTarget\<close> is the buffer \<open>tempVec3\<close>, which the second and
  the third branch also use for their result; \<open>vec\<close> is a fresh array. The three branches
  are \<open>pan_x\<close>, \<open>pan_y\<close> and \<open>pan_z\<close>, each on the camera and \<open>vec\<close>.\<close>

fun pan_x :: "camera \<times> vec3 \<Rightarrow> real \<Rightarrow> camera \<times> vec3" where
  "pan_x (c, vec) p0 =
     (if p0 \<noteq> 0 then
        let c = c\<lparr>tempVec3b := vec3_normalize (tempVec3b c) (tempVec3 c)\<rparr>;
            c = c\<lparr>tempVec3c := vec3_normalize (tempVec3c c) (up c)\<rparr>;
            c = c\<lparr>tempVec3d := vec3_cross (tempVec3b c) (tempVec3c c)\<rparr>;
            c = c\<lparr>tempVec3d := vec3_scale (tempVec3d c) p0\<rparr>
        in (c, vec3_add vec (tempVec3d c))
      else (c, vec))"

fun pan_y :: "camera \<times> vec3 \<Rightarrow> real \<Rightarrow> camera \<times> vec3" where
  "pan_y (c, vec) p1 =
     (if p1 \<noteq> 0 then
        let c = c\<lparr>tempVec3b := vec3_normalize (tempVec3b c) (up c)\<rparr>;
            c = c\<lparr>tempVec3 := vec3_scale (tempVec3b c) p1\<rparr>
        in (c, vec3_add vec (tempVec3 c))
      else (c, vec))"

fun pan_z :: "camera \<times> vec3 \<Rightarrow> real \<Rightarrow> camera \<times> vec3" where
  "pan_z (c, vec) p2 =
     (if p2 \<noteq> 0 then
        let c = c\<lparr>tempVec3b := vec3_normalize (tempVec3b c) (tempVec3 c)\<rparr>;
            c = c\<lparr>tempVec3 := vec3_scale (tempVec3b c) p2\<rparr>
        in (c, vec3_add vec (tempVec3 c))
      else (c, vec))"

fun pan :: "camera \<Rightarrow> vec3 \<Rightarrow> camera" where
  "pan c (p0, p1, p2) =
     (let c = c\<lparr>tempVec3 := vec3_subtract (eye c) (target c)\<rparr>;
          (c, vec) = pan_z (pan_y (pan_x (c, (0, 0, 0)) p0) p1) p2;
          c = c\<lparr>eye := vec3_add (eye c) vec\<rparr>;
          c = c\<lparr>target := vec3_add (target c) vec\<rparr>
      in setDirty c)"

definition zoom :: "camera \<Rightarrow> real \<Rightarrow> camera" where
  "zoom c delta =
     (let c = c\<lparr>tempVec3 := vec3_subtract (eye c) (target c)\<rparr>;
          c = c\<lparr>tempVec3 := vec3_normalize (tempVec3 c) (tempVec3 c)\<rparr>;
          c = c\<lparr>tempVec3 := vec3_scale (tempVec3 c) delta\<rparr>;
          c = c\<lparr>eye := vec3_add (eye c) (tempVec3 c)\<rparr>;
          c = c\<lparr>target := vec3_add (target c) (tempVec3 c)\<rparr>
      in setDirty c)"

text \<open>\<open>viewFit\<close> writes the cells of eye and target itself and does not call
  \<open>_setDirty\<close>. \<open>fitFOV || 45\<close>: zero and an absent value give 45.\<close>

definition viewFit :: "camera \<Rightarrow> aabb option \<Rightarrow> real option \<Rightarrow> camera" where
  "viewFit c aabb_arg fitFOV_arg =
     (let aabb = (case aabb_arg of None \<Rightarrow> viewer_modelBounds c | Some b \<Rightarrow> b);
          fitFOV = (case fitFOV_arg of None \<Rightarrow> 45 | Some f \<Rightarrow> if f = 0 then 45 else f)
      in case aabb of (a0, a1, a2, a3, a4, a5) \<Rightarrow>
        let c = c\<lparr>tempVec3 := vec3_subtract (eye c) (target c)\<rparr>;
            c = c\<lparr>tempVec3b := vec3_normalize (tempVec3b c) (tempVec3 c)\<rparr>;
            diagonal = sqrt ((a3 - a0)\<^sup>2 + (a4 - a1)\<^sup>2 + (a5 - a2)\<^sup>2);
            center = ((a3 + a0) / 2, (a4 + a1) / 2, (a5 + a2) / 2);
            c = c\<lparr>target := center\<rparr>;
            sca = \<bar>diagonal / tan (fitFOV * DEGTORAD)\<bar>
        in c\<lparr>eye := vec3_add (target c) (vec3_scale (tempVec3b c) sca)\<rparr>)"

subsection \<open>Sequences of calls\<close>

datatype call =
    SetWorldScale "real option"
  | GetViewMatrix
  | GetViewNormalMatrix
  | SetProjectionType string
  | SetEye "vec3 option"
  | SetTarget "vec3 option"
  | SetUp "vec3 option"
  | SetGimbalLock bool
  | SetConstrainPitch bool
  | SetWorldAxis "real list option"
  | OrbitYaw real
  | OrbitPitch real
  | Yaw real
  | Pitch real
  | Pan vec3
  | Zoom real
  | ViewFit "aabb option" "real option"

text \<open>One call on the camera. A call that throws leaves the camera as it was.\<close>

fun exec :: "camera \<Rightarrow> call \<Rightarrow> camera" where
  "exec c (SetWorldScale w) = set_worldScale c w"
| "exec c GetViewMatrix = snd (get_viewMatrix c)"
| "exec c GetViewNormalMatrix = snd (get_viewNormalMatrix c)"
| "exec c (SetProjectionType t) = set_projectionType c t"
| "exec c (SetEye v) = set_eye c v"
| "exec c (SetTarget v) = set_target c v"
| "exec c (SetUp v) = set_up c v"
| "exec c (SetGimbalLock b) = set_gimbalLock c b"
| "exec c (SetConstrainPitch b) = set_constrainPitch c b"
| "exec c (SetWorldAxis a) = (case set_worldAxis c a of Inl e \<Rightarrow> c | Inr c' \<Rightarrow> c')"
| "exec c (OrbitYaw d) = orbitYaw c d"
| "exec c (OrbitPitch d) = orbitPitch c d"
| "exec c (Yaw d) = yaw c d"
| "exec c (Pitch d) = pitch c d"
| "exec c (Pan p) = pan c p"
| "exec c (Zoom d) = zoom c d"
| "exec c (ViewFit b f) = viewFit c b f"

definition run :: "camera \<Rightarrow> call list \<Rightarrow> camera" where
  "run c cs = foldl exec c cs"

text \<open>A camera as a viewer constructs it, for the worked examples.\<close>

definition example_camera :: camera where
  "example_camera =
     new_Camera False (0, 0, 0, 0, 0, 0)
       \<lparr>ptype = ''perspective'', projMatrix = mat4_identity\<rparr>
       \<lparr>ptype = ''orthographic'', projMatrix = mat4_identity\<rparr>"

text \<open>The matrix a pitch-type operation applies: the rotation by the given angle about the
  cross product of the normalised vector \<open>v\<close> (eye to target, or target to eye) and the
  normalised up, as \<open>pitch\<close> and \<open>orbitPitch\<close> build it in their scratch buffers.\<close>

definition pitch_rotation :: "camera \<Rightarrow> vec3 \<Rightarrow> real \<Rightarrow> mat" where
  "pitch_rotation c v degrees =
     mat4_fromRotation (tempMat4 c) (degrees * DEGTORAD)
       (vec3_cross (vec3_normalize (tempVec3c c) v) (vec3_normalize (tempVec3d c) (up c)))"

text \<open>The Euclidean distance of two points, for the statements about \<open>viewFit\<close>.\<close>

definition distance3 :: "vec3 \<Rightarrow> vec3 \<Rightarrow> real" where
  "distance3 a b = sqrt (vec3_dot (vec3_subtract a b) (vec3_subtract a b))"

text \<open>The length of a vector, and the rotation of a vector \<open>v\<close> by \<open>rad\<close> radians about
  the axis \<open>a\<close> as geometry defines it (Rodrigues' formula on the unit axis): the reference
  against which the camera's rotations are compared.\<close>

definition vec3_len :: "vec3 \<Rightarrow> real" where
  "vec3_len v = sqrt (vec3_dot v v)"


text \<open>The matrix that \<open>mat4.fromRotation\<close> writes for a unit axis.\<close>

fun rotation_matrix :: "vec3 \<Rightarrow> real \<Rightarrow> mat" where
  "rotation_matrix (x, y, z) rad =
     (let s = sin rad; c = cos rad; t = 1 - c
      in [x * x * t + c, y * x * t + z * s, z * x * t - y * s, 0,
          x * y * t - z * s, y * y * t + c, z * y * t + x * s, 0,
          x * z * t + y * s, y * z * t - x * s, z * z * t + c, 0,
          0, 0, 0, 1])"

text \<open>The pivot of the yaw-type operations, and the matrix they apply.\<close>

definition yaw_pivot :: "camera \<Rightarrow> vec3" where
  "yaw_pivot c = (if gimbalLock c then worldUp c else up c)"

definition yaw_rotation :: "camera \<Rightarrow> real \<Rightarrow> mat" where
  "yaw_rotation c degrees = mat4_fromRotation (tempMat4 c) (degrees * DEGTORAD) (yaw_pivot c)"

text \<open>The calls of a rotation sequence: the four rotations and the two flags.\<close>

fun rotation_call :: "call \<Rightarrow> bool" where
  "rotation_call (OrbitYaw d) = True"
| "rotation_call (OrbitPitch d) = True"
| "rotation_call (Yaw d) = True"
| "rotation_call (Pitch d) = True"
| "rotation_call (SetGimbalLock b) = True"
| "rotation_call (SetConstrainPitch b) = True"
| "rotation_call _ = False"

definition up_orthogonal :: "camera \<Rightarrow> bool" where
  "up_orthogonal c = (vec3_dot (up c) (vec3_subtract (eye c) (target c)) = 0)"

text \<open>A scratch matrix without translation part: what the constructor, \<open>_build\<close> and
  \<open>mat4.fromRotation\<close> leave in \<open>tempMat4\<close>.\<close>

definition scratch_linear :: "mat \<Rightarrow> bool" where
  "scratch_linear m = (m ! 12 = 0 \<and> m ! 13 = 0 \<and> m ! 14 = 0)"

text \<open>What a rotation sequence maintains: up is orthogonal to the view vector, worldUp is
  long enough to be a pivot, the scratch matrix has no translation part, and up is long
  enough to be a pivot unless eye and target coincide.\<close>

definition rotation_invariant :: "camera \<Rightarrow> bool" where
  "rotation_invariant c =
     (up_orthogonal c \<and> EPSILON \<le> vec3_len (worldUp c) \<and> scratch_linear (tempMat4 c)
      \<and> (eye c = target c \<or> EPSILON \<le> vec3_len (up c)))"

text \<open>Whether a pitch-type operation on the vector \<open>v\<close> returns early.\<close>

definition pitch_rejects :: "camera \<Rightarrow> vec3 \<Rightarrow> real \<Rightarrow> bool" where
  "pitch_rejects c v d = (constrainPitch c \<and>
      vec3_dot (vec3_transformMat4 (up c) (pitch_rotation c v d)) (worldUp c) / DEGTORAD < 1)"


section \<open>Properties\<close>

subsection \<open>Arithmetic used by the examples\<close>

lemma sqrt_100: "sqrt 100 = 10"
  using real_sqrt_abs [of 10] by simp

lemma sub_add_same: "vec3_subtract (vec3_add e d) (vec3_add t d) = vec3_subtract e t"
  by (cases e; cases t; cases d) simp

subsection \<open>World scale\<close>

text \<open>C9, as amended. For every input \<open>w\<close>, after the worldScale setter runs with \<open>w\<close>
  the stored worldScale is 1 when \<open>w\<close> is absent or zero and \<open>w\<close> otherwise. It is
  therefore never zero, it is strictly positive exactly when \<open>w\<close> is not negative, and the
  camera and its viewer are marked dirty.\<close>

theorem set_worldScale_stored:
  "worldScale (set_worldScale c w) = (case w of None \<Rightarrow> 1 | Some x \<Rightarrow> if x = 0 then 1 else x)
   \<and> worldScale (set_worldScale c w) \<noteq> 0
   \<and> (0 < worldScale (set_worldScale c w)) = (case w of None \<Rightarrow> True | Some x \<Rightarrow> 0 \<le> x)
   \<and> dirty (set_worldScale c w) \<and> viewer_dirty (set_worldScale c w)"
  by (auto simp: set_worldScale_def setDirty_def split: option.splits)

text \<open>C9 as stated fails: setting the world scale to -1 stores -1, which is not positive.\<close>

theorem set_worldScale_negative:
  "\<not> 0 < worldScale (set_worldScale example_camera (Some (- 1)))"
  by (simp add: set_worldScale_def setDirty_def)

subsection \<open>World axis\<close>

text \<open>C10 at the state right after construction: worldRight and worldUp are the first two
  triples of worldAxis, but worldForward is (0, 0, -1) while the third triple of worldAxis
  is (0, 0, 1).\<close>

theorem constructor_worldForward:
  "worldRight (new_Camera vd mb p q)
     = (worldAxis (new_Camera vd mb p q) ! 0, worldAxis (new_Camera vd mb p q) ! 1,
        worldAxis (new_Camera vd mb p q) ! 2)
   \<and> worldUp (new_Camera vd mb p q)
     = (worldAxis (new_Camera vd mb p q) ! 3, worldAxis (new_Camera vd mb p q) ! 4,
        worldAxis (new_Camera vd mb p q) ! 5)
   \<and> worldForward (new_Camera vd mb p q) = (0, 0, -1)
   \<and> (worldAxis (new_Camera vd mb p q) ! 6, worldAxis (new_Camera vd mb p q) ! 7,
      worldAxis (new_Camera vd mb p q) ! 8) = (0, 0, 1)"
  by (simp add: new_Camera_def)

text \<open>The setter, on the other hand, copies all three triples, whatever it is given.\<close>

lemma set_worldAxis_slices:
  "set_worldAxis c a = Inr c' \<Longrightarrow>
     worldRight c' = (worldAxis c' ! 0, worldAxis c' ! 1, worldAxis c' ! 2)
   \<and> worldUp c' = (worldAxis c' ! 3, worldAxis c' ! 4, worldAxis c' ! 5)
   \<and> worldForward c' = (worldAxis c' ! 6, worldAxis c' ! 7, worldAxis c' ! 8)"
  by (auto simp: set_worldAxis_def setDirty_def Let_def split: sum.splits)

subsection \<open>Zoom\<close>

text \<open>C4, as amended. Starting from eye = (0,0,-10) and target = (0,0,0), \<open>zoom(2)\<close>
  yields eye = (0,0,-12) and target = (0,0,-2): both endpoints translate by 2 units along
  the normalised (eye - target) direction, which is -Z, away from the target.\<close>

theorem zoom_default:
  "eye (zoom (c\<lparr>eye := (0, 0, -10), target := (0, 0, 0)\<rparr>) 2) = (0, 0, -12)
   \<and> target (zoom (c\<lparr>eye := (0, 0, -10), target := (0, 0, 0)\<rparr>) 2) = (0, 0, -2)"
  by (simp add: zoom_def setDirty_def Let_def sqrt_100)

text \<open>C4 as stated fails: on the constructed camera, whose eye is (0,0,-10) and whose target
  is the origin, \<open>zoom(2)\<close> does not move the eye to (0,0,-8) nor the target to (0,0,2).\<close>

theorem zoom_not_towards_target:
  "eye (zoom example_camera 2) \<noteq> (0, 0, -8) \<and> target (zoom example_camera 2) \<noteq> (0, 0, 2)"
  by (simp add: example_camera_def new_Camera_def zoom_def setDirty_def Let_def sqrt_100)

subsection \<open>Pan\<close>

lemma pan_x_frame:
  "eye (fst (pan_x cv p)) = eye (fst cv) \<and> target (fst (pan_x cv p)) = target (fst cv)"
  by (cases cv) (simp add: Let_def)

lemma pan_y_frame:
  "eye (fst (pan_y cv p)) = eye (fst cv) \<and> target (fst (pan_y cv p)) = target (fst cv)"
  by (cases cv) (simp add: Let_def)

lemma pan_z_frame:
  "eye (fst (pan_z cv p)) = eye (fst cv) \<and> target (fst (pan_z cv p)) = target (fst cv)"
  by (cases cv) (simp add: Let_def)

text \<open>Whatever the pan vector and the camera, eye and target move by one displacement.\<close>

lemma pan_same_displacement:
  "\<exists>d. eye (pan c p) = vec3_add (eye c) d \<and> target (pan c p) = vec3_add (target c) d"
proof -
  obtain p0 p1 p2 where p: "p = (p0, p1, p2)" by (cases p)
  define r where
    "r = pan_z (pan_y (pan_x (c\<lparr>tempVec3 := vec3_subtract (eye c) (target c)\<rparr>, (0, 0, 0)) p0) p1) p2"
  have "eye (fst r) = eye c" "target (fst r) = target c"
    by (simp_all add: r_def pan_x_frame pan_y_frame pan_z_frame)
  then have "eye (pan c p) = vec3_add (eye c) (snd r)
      \<and> target (pan c p) = vec3_add (target c) (snd r)"
    by (simp add: p r_def setDirty_def split_def Let_def
          del: vec3_add.simps pan_x.simps pan_y.simps pan_z.simps)
  then show ?thesis by blast
qed

lemma pan_difference:
  "vec3_subtract (eye (pan c p)) (target (pan c p)) = vec3_subtract (eye c) (target c)"
proof -
  obtain d where "eye (pan c p) = vec3_add (eye c) d" "target (pan c p) = vec3_add (target c) d"
    using pan_same_displacement by blast
  then show ?thesis by (simp add: sub_add_same del: vec3_add.simps vec3_subtract.simps)
qed

text \<open>C6, as amended. Starting from the default frame eye = (0,0,-10), target = (0,0,0),
  up = (0,1,0), \<open>pan([0,0,5])\<close> translates eye and target by one and the same displacement
  (their difference is unchanged), moving both 5 units away from the target along the
  eye-target axis: eye to (0,0,-15), target to (0,0,-5).\<close>

theorem pan_default:
  "eye (pan (c\<lparr>eye := (0, 0, -10), target := (0, 0, 0), up := (0, 1, 0)\<rparr>) (0, 0, 5))
     = vec3_add (0, 0, -10) (0, 0, -5)
   \<and> target (pan (c\<lparr>eye := (0, 0, -10), target := (0, 0, 0), up := (0, 1, 0)\<rparr>) (0, 0, 5))
     = vec3_add (0, 0, 0) (0, 0, -5)
   \<and> eye (pan (c\<lparr>eye := (0, 0, -10), target := (0, 0, 0), up := (0, 1, 0)\<rparr>) (0, 0, 5))
     = (0, 0, -15)
   \<and> target (pan (c\<lparr>eye := (0, 0, -10), target := (0, 0, 0), up := (0, 1, 0)\<rparr>) (0, 0, 5))
     = (0, 0, -5)
   \<and> vec3_subtract
       (eye (pan (c\<lparr>eye := (0, 0, -10), target := (0, 0, 0), up := (0, 1, 0)\<rparr>) (0, 0, 5)))
       (target (pan (c\<lparr>eye := (0, 0, -10), target := (0, 0, 0), up := (0, 1, 0)\<rparr>) (0, 0, 5)))
     = vec3_subtract (0, 0, -10) (0, 0, 0)"
  by (simp add: setDirty_def Let_def sqrt_100)

text \<open>C6 as stated fails: on the constructed camera, which has the default frame,
  \<open>pan([0,0,5])\<close> does not move the eye to (0,0,-5) nor the target to (0,0,5).\<close>

theorem pan_not_towards_target:
  "eye (pan example_camera (0, 0, 5)) \<noteq> (0, 0, -5)
   \<and> target (pan example_camera (0, 0, 5)) \<noteq> (0, 0, 5)"
  by (simp add: example_camera_def new_Camera_def setDirty_def Let_def sqrt_100)

subsection \<open>Projection selection\<close>

text \<open>C8. Setting projectionType to "perspective" or to "orthographic" selects the
  strategy of that name built by the constructor. Setting it to any other token leaves the
  selection, and with it the projectionType and projMatrix read afterwards, as before the
  call; the two strategies are untouched, and the only effect is one line on the console.\<close>

theorem set_projectionType_selects:
  "active (set_projectionType c ''perspective'') = perspective c
   \<and> active (set_projectionType c ''orthographic'') = orthographic c
   \<and> (t \<noteq> ''perspective'' \<and> t \<noteq> ''orthographic'' \<longrightarrow>
        projection (set_projectionType c t) = projection c
      \<and> get_projectionType (set_projectionType c t) = get_projectionType c
      \<and> get_projMatrix (set_projectionType c t) = get_projMatrix c
      \<and> set_projectionType c t
          = c\<lparr>console := console c @ [''Unsupported projectionType: '' @ t]\<rparr>)"
  by (auto simp: set_projectionType_def active_def get_projectionType_def get_projMatrix_def
        split: projection_ref.splits)

theorem set_projectionType_selects_witness:
  "''isometric'' \<noteq> ''perspective'' \<and> ''isometric'' \<noteq> ''orthographic''
   \<and> projection (set_projectionType example_camera ''isometric'') = projection example_camera
   \<and> get_projectionType (set_projectionType example_camera ''isometric'') = ''perspective''
   \<and> console (set_projectionType example_camera ''isometric'')
       = [''Unsupported projectionType: isometric'']"
  using set_projectionType_selects [of example_camera "''isometric''"]
  by (simp add: example_camera_def new_Camera_def get_projectionType_def active_def)

subsection \<open>The view-matrix cache\<close>

lemma lookAt_default:
  "mat4_lookAt (0, 0, -10) (0, 0, 0) (0, 1, 0)
     = [-1, 0, 0, 0,  0, 1, 0, 0,  0, 0, -1, 0,  0, 0, -10, 1]"
  by (simp add: EPSILON_def unit_or_zero_def sqrt_100)

lemma multiply_unit_scale:
  "mat4_multiply (mat4_scale mat4_identity (1, 1, 1)) m
     = [m ! 0, m ! 1, m ! 2, m ! 3, m ! 4, m ! 5, m ! 6, m ! 7,
        m ! 8, m ! 9, m ! 10, m ! 11, m ! 12, m ! 13, m ! 14, m ! 15]"
  by (simp add: mat4_multiply_def mat4_identity_def Let_def)

lemma identity_14: "mat4_identity ! 14 = 0"
  by (simp add: mat4_identity_def)

lemma lookAt_after_fit:
  assumes "0 \<le> s"
  shows "mat4_lookAt (2, 2, 2 + - 1 * s) (2, 2, 2) (0, 1, 0) ! 12 = 2
       \<or> mat4_lookAt (2, 2, 2 + - 1 * s) (2, 2, 2) (0, 1, 0) = mat4_identity"
proof (cases "s < EPSILON")
  case True
  then show ?thesis using assms by simp
next
  case False
  then have "0 < s" by (simp add: EPSILON_def)
  then have "s / \<bar>s\<bar> = 1" by simp
  with False \<open>0 < s\<close> show ?thesis
    by (simp add: unit_or_zero_def)
qed

lemma view_after_first_read:
  "fst (get_viewMatrix example_camera)
     = [-1, 0, 0, 0,  0, 1, 0, 0,  0, 0, -1, 0,  0, 0, -10, 1]"
  by (simp add: get_viewMatrix_def build_def example_camera_def new_Camera_def Let_def
        lookAt_default multiply_unit_scale del: mat4_lookAt.simps mat4_scale.simps)

text \<open>C1 at a concrete sequence: construct the camera, read viewMatrix, call
  \<open>viewFit([1,1,1, 3,3,3])\<close>. The call moves the target from the origin to (2,2,2) and
  leaves the camera clean, so the next read of viewMatrix returns the matrix of the first
  read, which is not the matrix that the current eye, target, up and worldScale give.\<close>

theorem viewFit_leaves_stale_matrix:
  "\<not> dirty (run example_camera [GetViewMatrix, ViewFit (Some (1, 1, 1, 3, 3, 3)) None])
   \<and> target (run example_camera [GetViewMatrix]) = (0, 0, 0)
   \<and> target (run example_camera [GetViewMatrix, ViewFit (Some (1, 1, 1, 3, 3, 3)) None]) = (2, 2, 2)
   \<and> fst (get_viewMatrix (run example_camera [GetViewMatrix, ViewFit (Some (1, 1, 1, 3, 3, 3)) None]))
       = fst (get_viewMatrix example_camera)
   \<and> fst (get_viewMatrix (run example_camera [GetViewMatrix, ViewFit (Some (1, 1, 1, 3, 3, 3)) None]))
       \<noteq> viewMatrix (build ((run example_camera [GetViewMatrix, ViewFit (Some (1, 1, 1, 3, 3, 3)) None])
                               \<lparr>dirty := True\<rparr>))"
proof -
  define c1 where "c1 = snd (get_viewMatrix example_camera)"
  define c2 where "c2 = viewFit c1 (Some (1, 1, 1, 3, 3, 3)) None"
  define s where "s = \<bar>sqrt ((3 - 1)\<^sup>2 + (3 - 1)\<^sup>2 + (3 - 1)\<^sup>2) / tan (45 * DEGTORAD)\<bar>"
  have r1: "run example_camera [GetViewMatrix] = c1"
    by (simp add: run_def c1_def)
  have r2: "run example_camera [GetViewMatrix, ViewFit (Some (1, 1, 1, 3, 3, 3)) None] = c2"
    by (simp add: run_def c1_def c2_def)
  have c1: "\<not> dirty c1" "eye c1 = (0, 0, -10)" "target c1 = (0, 0, 0)" "up c1 = (0, 1, 0)"
    "worldScale c1 = 1" "viewMatrix c1 = fst (get_viewMatrix example_camera)"
    by (simp_all add: c1_def get_viewMatrix_def build_def example_camera_def new_Camera_def Let_def
          del: mat4_lookAt.simps mat4_scale.simps)
  have c2: "\<not> dirty c2" "eye c2 = (2, 2, 2 + - 1 * s)" "target c2 = (2, 2, 2)" "up c2 = (0, 1, 0)"
    "worldScale c2 = 1" "viewMatrix c2 = viewMatrix c1"
    using c1 by (simp_all add: c2_def viewFit_def Let_def s_def sqrt_100)
  have stale: "fst (get_viewMatrix c2) = fst (get_viewMatrix example_camera)"
    using c1 c2 by (simp add: get_viewMatrix_def)
  have "0 \<le> s" by (simp add: s_def)
  from lookAt_after_fit [OF this]
  have fresh: "viewMatrix (build (c2\<lparr>dirty := True\<rparr>)) ! 12 = 2
      \<or> viewMatrix (build (c2\<lparr>dirty := True\<rparr>)) ! 14 = 0"
    using c2
    by (auto simp: build_def Let_def multiply_unit_scale identity_14
        simp del: mat4_lookAt.simps mat4_scale.simps)
  have old: "fst (get_viewMatrix example_camera) ! 12 = 0"
    "fst (get_viewMatrix example_camera) ! 14 = - 10"
    by (simp_all add: view_after_first_read)
  have "fst (get_viewMatrix c2) \<noteq> viewMatrix (build (c2\<lparr>dirty := True\<rparr>))"
    using fresh old stale by auto
  with c1 c2 stale show ?thesis by (simp add: r1 r2)
qed

subsection \<open>View fit\<close>

lemma pi_ge_3: "3 \<le> pi"
proof -
  have "sin (pi / 6) \<le> pi / 6" by (rule sin_x_le_x) simp
  then show ?thesis by (simp add: sin_30)
qed

lemma cos_neg_between: 
  assumes "pi / 2 < x" "x < 3 * pi / 2"
  shows "cos x < 0"
proof -
  have "0 < cos (x - pi)" using assms by (intro cos_gt_zero_pi) auto
  then show ?thesis by (simp add: cos_diff)
qed

lemma tan_fit_90: "\<bar>tan (90 * DEGTORAD)\<bar> \<noteq> 1"
proof
  assume a: "\<bar>tan (90 * DEGTORAD)\<bar> = 1"
  define x :: real where "x = 90 * DEGTORAD"
  have x2: "2 * x = 3.14159265" by (simp add: x_def DEGTORAD_def)
  have "pi / 2 < 2 * x" using pi_less_4 by (simp add: x2)
  moreover have "2 * x < 3 * pi / 2" using pi_ge_3 by (simp add: x2)
  ultimately have neg: "cos (2 * x) < 0" by (rule cos_neg_between)
  from a have t: "(tan x)\<^sup>2 = 1" unfolding x_def [symmetric]
    by (metis power2_abs one_power2)
  then have c0: "cos x \<noteq> 0" by (auto simp: tan_def)
  from t have "(sin x)\<^sup>2 = (cos x)\<^sup>2"
    using c0 by (simp add: tan_def power_divide field_simps)
  then have "cos (2 * x) = 0" by (simp add: cos_double)
  with neg show False by simp
qed

lemma sqrt_12: "sqrt 12 = 2 * sqrt 3"
proof -
  have "sqrt 12 = sqrt (4 * 3)" by simp
  also have "\<dots> = 2 * sqrt 3" by (simp only: real_sqrt_mult) simp
  finally show ?thesis .
qed

lemma normalize_unit:
  assumes "v \<noteq> (0, 0, 0)"
  shows "vec3_dot (vec3_normalize out v) (vec3_normalize out v) = 1"
proof -
  obtain x y z where v: "v = (x, y, z)" by (cases v)
  define n where "n = x * x + y * y + z * z"
  have "n \<noteq> 0" using assms v unfolding n_def
    by (metis add_nonneg_eq_0_iff mult_eq_0_iff zero_le_square add_nonneg_nonneg)
  moreover have "0 \<le> n" by (simp add: n_def)
  ultimately have pos: "0 < n" by simp
  define r where "r = 1 / sqrt n"
  have "r * r = 1 / n" using pos by (simp add: r_def)
  then have "n * (r * r) = 1" using pos by simp
  moreover have "x * r * (x * r) + y * r * (y * r) + z * r * (z * r) = n * (r * r)"
    by (simp add: n_def algebra_simps)
  ultimately show ?thesis using pos by (simp add: v Let_def n_def [symmetric] r_def [symmetric])
qed

lemma viewFit_unit_box_eye:
  "eye (viewFit c (Some (-1, -1, -1, 1, 1, 1)) (Some 90))
       = vec3_add (0, 0, 0)
           (vec3_scale (vec3_normalize (tempVec3b c) (vec3_subtract (eye c) (target c)))
              \<bar>2 * sqrt 3 / tan (90 * DEGTORAD)\<bar>)"
  by (simp add: viewFit_def Let_def sqrt_12
        del: vec3_add.simps vec3_scale.simps vec3_normalize.simps vec3_subtract.simps)

lemma viewFit_unit_box_target:
  "target (viewFit c (Some (-1, -1, -1, 1, 1, 1)) (Some 90)) = (0, 0, 0)"
  by (simp add: viewFit_def Let_def)

lemma viewFit_unit_box_far:
  assumes "eye c \<noteq> target c"
  shows "distance3 (eye (viewFit c (Some (-1, -1, -1, 1, 1, 1)) (Some 90)))
                   (target (viewFit c (Some (-1, -1, -1, 1, 1, 1)) (Some 90)))
          = \<bar>2 * sqrt 3 / tan (90 * DEGTORAD)\<bar>"
proof -
  define u where "u = vec3_normalize (tempVec3b c) (vec3_subtract (eye c) (target c))"
  define s where "s = \<bar>2 * sqrt 3 / tan (90 * DEGTORAD)\<bar>"
  have "vec3_subtract (eye c) (target c) \<noteq> (0, 0, 0)"
    using assms by (cases "eye c"; cases "target c") auto
  then have "vec3_dot u u = 1" unfolding u_def by (rule normalize_unit)
  moreover have "0 \<le> s" by (simp add: s_def)
  moreover have "vec3_dot (vec3_scale u s) (vec3_scale u s) = s * s * vec3_dot u u"
    by (cases u) (simp add: algebra_simps)
  ultimately have "distance3 (vec3_add (0, 0, 0) (vec3_scale u s)) (0, 0, 0) = s"
    by (cases u) (simp add: distance3_def)
  then show ?thesis
    unfolding viewFit_unit_box_eye viewFit_unit_box_target u_def s_def .
qed

text \<open>C5, as amended. \<open>viewFit\<close> with boundingBox = [-1,-1,-1, 1,1,1] and fitFOV = 90 sets
  the target to (0,0,0) and places the eye at the new target plus the normalised pre-fit
  (eye - target) direction times |diagonal / tan (90 * 0.0174532925)|, where the diagonal is
  2 * sqrt 3: the tangent is taken of the whole fitFOV angle, not of its half. When eye and
  target differed before the call, that factor is the distance of the eye from the new target.\<close>

theorem viewFit_unit_box:
  "target (viewFit c (Some (-1, -1, -1, 1, 1, 1)) (Some 90)) = (0, 0, 0)
   \<and> eye (viewFit c (Some (-1, -1, -1, 1, 1, 1)) (Some 90))
       = vec3_add (0, 0, 0)
           (vec3_scale (vec3_normalize (tempVec3b c) (vec3_subtract (eye c) (target c)))
              \<bar>2 * sqrt 3 / tan (90 * DEGTORAD)\<bar>)
   \<and> (eye c \<noteq> target c \<longrightarrow>
        distance3 (eye (viewFit c (Some (-1, -1, -1, 1, 1, 1)) (Some 90)))
                  (target (viewFit c (Some (-1, -1, -1, 1, 1, 1)) (Some 90)))
          = \<bar>2 * sqrt 3 / tan (90 * DEGTORAD)\<bar>)"
  using viewFit_unit_box_eye viewFit_unit_box_target viewFit_unit_box_far by blast

theorem viewFit_unit_box_witness:
  "eye example_camera \<noteq> target example_camera
   \<and> target (viewFit example_camera (Some (-1, -1, -1, 1, 1, 1)) (Some 90)) = (0, 0, 0)
   \<and> distance3 (eye (viewFit example_camera (Some (-1, -1, -1, 1, 1, 1)) (Some 90)))
                  (target (viewFit example_camera (Some (-1, -1, -1, 1, 1, 1)) (Some 90)))
          = \<bar>2 * sqrt 3 / tan (90 * DEGTORAD)\<bar>"
proof -
  have "eye example_camera \<noteq> target example_camera"
    by (simp add: example_camera_def new_Camera_def)
  with viewFit_unit_box [of example_camera] show ?thesis by blast
qed

text \<open>C5 as stated fails: on the constructed camera the distance of the eye from the new
  target is not diagonal / tan 45 degrees = 2 * sqrt 3.\<close>

theorem viewFit_unit_box_distance:
  "distance3 (eye (viewFit example_camera (Some (-1, -1, -1, 1, 1, 1)) (Some 90)))
             (target (viewFit example_camera (Some (-1, -1, -1, 1, 1, 1)) (Some 90)))
     \<noteq> 2 * sqrt 3"
proof -
  have "eye example_camera \<noteq> target example_camera"
    by (simp add: example_camera_def new_Camera_def)
  then have "distance3 (eye (viewFit example_camera (Some (-1, -1, -1, 1, 1, 1)) (Some 90)))
             (target (viewFit example_camera (Some (-1, -1, -1, 1, 1, 1)) (Some 90)))
     = \<bar>2 * sqrt 3 / tan (90 * DEGTORAD)\<bar>"
    by (rule viewFit_unit_box_far)
  moreover have "\<bar>2 * sqrt 3 / tan (90 * DEGTORAD)\<bar> \<noteq> 2 * sqrt 3"
  proof
    assume a: "\<bar>2 * sqrt 3 / tan (90 * DEGTORAD)\<bar> = 2 * sqrt 3"
    define t where "t = \<bar>tan (90 * DEGTORAD)\<bar>"
    have "0 < 2 * sqrt 3" by simp
    from a have "2 * sqrt 3 / t = 2 * sqrt 3" by (simp add: abs_mult t_def)
    then have "t = 1" using \<open>0 < 2 * sqrt 3\<close>
      by (cases "t = 0") (simp_all add: field_simps)
    with tan_fit_90 show False by (simp add: t_def)
  qed
  ultimately show ?thesis by simp
qed


subsection \<open>Rotations about an axis\<close>

lemma dot_self_nonneg: "0 \<le> vec3_dot a a"
proof -
  obtain x y z where "a = (x, y, z)" by (cases a)
  then show ?thesis by (simp add: add_nonneg_nonneg)
qed


lemma len_sq: "vec3_len a * vec3_len a = vec3_dot a a"
  using dot_self_nonneg [of a] by (simp add: vec3_len_def)

lemma dot_scale_scale: "vec3_dot (vec3_scale a r) (vec3_scale b q) = vec3_dot a b * (r * q)"
  by (cases a; cases b) (simp add: algebra_simps)

lemma unit_axis:
  assumes "0 < vec3_len a"
  shows "vec3_dot (vec3_scale a (1 / vec3_len a)) (vec3_scale a (1 / vec3_len a)) = 1"
proof -
  have "vec3_dot a a = vec3_len a * vec3_len a" by (simp add: len_sq)
  then have "vec3_dot a a * (1 / vec3_len a * (1 / vec3_len a)) = 1"
    using assms by simp
  then show ?thesis by (simp only: dot_scale_scale)
qed

lemma fromRotation_matrix:
  assumes "EPSILON \<le> vec3_len a"
  shows "mat4_fromRotation out rad a = rotation_matrix (vec3_scale a (1 / vec3_len a)) rad"
proof -
  obtain ax ay az where a: "a = (ax, ay, az)" by (cases a)
  have "\<not> \<bar>sqrt (ax * ax + ay * ay + az * az)\<bar> < EPSILON"
    using assms by (simp add: a vec3_len_def)
  then show ?thesis
    by (simp add: a vec3_len_def Let_def)
qed



lemma rotation_matrix_dot:
  assumes "vec3_dot k k = 1"
  shows "vec3_dot (vec3_transformMat4 u (rotation_matrix k rad))
                  (vec3_transformMat4 v (rotation_matrix k rad)) = vec3_dot u v"
proof -
  obtain x y z where k: "k = (x, y, z)" by (cases k)
  obtain u0 u1 u2 where u: "u = (u0, u1, u2)" by (cases u)
  obtain v0 v1 v2 where v: "v = (v0, v1, v2)" by (cases v)
  define s where "s = sin rad"
  define c where "c = cos rad"
  have sc: "c * c + s * s = 1" by (simp add: s_def c_def)
  have kk: "x * x + y * y + z * z = 1" using assms by (simp add: k)
  show ?thesis
    unfolding k u v
    apply (simp add: Let_def s_def [symmetric] c_def [symmetric])
    using sc kk apply algebra
    done
qed

lemma rotation_matrix_axis_dot:
  assumes "vec3_dot k k = 1"
  shows "vec3_dot k (vec3_transformMat4 v (rotation_matrix k rad)) = vec3_dot k v"
proof -
  obtain x y z where k: "k = (x, y, z)" by (cases k)
  obtain v0 v1 v2 where v: "v = (v0, v1, v2)" by (cases v)
  define s where "s = sin rad"
  define c where "c = cos rad"
  have kk: "x * x + y * y + z * z = 1" using assms by (simp add: k)
  show ?thesis
    unfolding k v
    apply (simp add: Let_def s_def [symmetric] c_def [symmetric])
    using kk apply algebra
    done
qed

subsection \<open>Yaw\<close>

lemmas vec_simps_del = vec3_transformMat4.simps vec3_dot.simps vec3_add.simps vec3_subtract.simps
           vec3_cross.simps vec3_normalize.simps mat4_fromRotation.simps vec3_scale.simps

lemma yaw_fields:
  "eye (yaw c d) = eye c"
  "target (yaw c d) = vec3_add (eye c) (vec3_transformMat4 (vec3_subtract (target c) (eye c)) (yaw_rotation c d))"
  "up (yaw c d) = (if gimbalLock c then vec3_transformMat4 (up c) (yaw_rotation c d) else up c)"
  "tempMat4 (yaw c d) = yaw_rotation c d"
  "worldUp (yaw c d) = worldUp c"
  by (simp_all add: yaw_def yaw_rotation_def yaw_pivot_def setDirty_def Let_def del: vec_simps_del)

lemma orbitYaw_fields:
  "target (orbitYaw c d) = target c"
  "eye (orbitYaw c d) = vec3_add (target c) (vec3_transformMat4 (vec3_subtract (eye c) (target c)) (yaw_rotation c d))"
  "up (orbitYaw c d) = vec3_transformMat4 (up c) (yaw_rotation c d)"
  "tempMat4 (orbitYaw c d) = yaw_rotation c d"
  "worldUp (orbitYaw c d) = worldUp c"
  by (simp_all add: orbitYaw_def yaw_rotation_def yaw_pivot_def setDirty_def Let_def del: vec_simps_del)

lemma pitch_fields:
  "eye (pitch c d) = eye c"
  "target (pitch c d) = (if pitch_rejects c (vec3_subtract (target c) (eye c)) d then target c
      else vec3_add (eye c) (vec3_transformMat4 (vec3_subtract (target c) (eye c))
             (pitch_rotation c (vec3_subtract (target c) (eye c)) d)))"
  "up (pitch c d) = (if pitch_rejects c (vec3_subtract (target c) (eye c)) d then up c
      else vec3_transformMat4 (up c) (pitch_rotation c (vec3_subtract (target c) (eye c)) d))"
  "tempMat4 (pitch c d) = pitch_rotation c (vec3_subtract (target c) (eye c)) d"
  "worldUp (pitch c d) = worldUp c"
  by (simp_all add: pitch_def pitch_rotation_def pitch_rejects_def setDirty_def Let_def del: vec_simps_del)

lemma orbitPitch_fields:
  "target (orbitPitch c d) = target c"
  "eye (orbitPitch c d) = (if pitch_rejects c (vec3_subtract (eye c) (target c)) d then eye c
      else vec3_add (target c) (vec3_transformMat4 (vec3_subtract (eye c) (target c))
             (pitch_rotation c (vec3_subtract (eye c) (target c)) d)))"
  "up (orbitPitch c d) = (if pitch_rejects c (vec3_subtract (eye c) (target c)) d then up c
      else vec3_transformMat4 (up c) (pitch_rotation c (vec3_subtract (eye c) (target c)) d))"
  "tempMat4 (orbitPitch c d) = pitch_rotation c (vec3_subtract (eye c) (target c)) d"
  "worldUp (orbitPitch c d) = worldUp c"
  by (simp_all add: orbitPitch_def pitch_rotation_def pitch_rejects_def setDirty_def Let_def del: vec_simps_del)

lemma sub_add_cancel: "vec3_subtract (vec3_add e x) e = x"
  by (cases e; cases x) simp



lemma sin_fit_pos: "0 < sin (90 * DEGTORAD)"
  by (rule sin_gt_zero_02) (simp_all add: DEGTORAD_def)



subsection \<open>Orthogonality of up and the view vector\<close>

lemma lin_identity: "scratch_linear mat4_identity"
  by (simp add: scratch_linear_def mat4_identity_def)

lemma lin_fromRotation:
  "scratch_linear out \<Longrightarrow> scratch_linear (mat4_fromRotation out r a)"
  by (cases a) (simp add: scratch_linear_def Let_def)

lemma transform_zero:
  "scratch_linear m \<Longrightarrow> vec3_transformMat4 (0, 0, 0) m = (0, 0, 0)"
  by (simp add: scratch_linear_def Let_def)

lemma sub_self: "vec3_subtract a a = (0, 0, 0)"
  by (cases a) auto

lemma add_zero: "vec3_add a (0, 0, 0) = a"
  by (cases a) auto

lemma dot_zero_right: "vec3_dot u (0, 0, 0) = 0"
  by (cases u) auto

lemma sub_eq_zero: "vec3_subtract a b = (0, 0, 0) \<Longrightarrow> a = b"
  by (cases a; cases b) auto

lemma sub_add_neg: "vec3_subtract e (vec3_add e x) = vec3_scale x (- 1)"
  by (cases e; cases x) auto

lemma dot_scale_right: "vec3_dot u (vec3_scale x r) = vec3_dot u x * r"
  by (cases u; cases x) (auto simp: algebra_simps)

lemma dot_scale_left: "vec3_dot (vec3_scale x r) u = vec3_dot x u * r"
  by (cases u; cases x) (auto simp: algebra_simps)

lemma dot_sub_swap: "vec3_dot u (vec3_subtract t e) = - vec3_dot u (vec3_subtract e t)"
  by (cases u; cases e; cases t) (auto simp: algebra_simps)

lemma len_pos: "EPSILON \<le> vec3_len a \<Longrightarrow> 0 < vec3_len a"
  by (simp add: EPSILON_def)

lemma fromRotation_dot:
  assumes "EPSILON \<le> vec3_len a"
  shows "vec3_dot (vec3_transformMat4 u (mat4_fromRotation out r a))
                  (vec3_transformMat4 v (mat4_fromRotation out r a)) = vec3_dot u v"
  unfolding fromRotation_matrix [OF assms]
  by (rule rotation_matrix_dot) (rule unit_axis [OF len_pos [OF assms]])

lemma fromRotation_axis_dot:
  assumes "EPSILON \<le> vec3_len a"
  shows "vec3_dot a (vec3_transformMat4 v (mat4_fromRotation out r a)) = vec3_dot a v"
proof -
  define k where "k = vec3_scale a (1 / vec3_len a)"
  have pos: "0 < vec3_len a" using assms by (rule len_pos)
  have a: "a = vec3_scale k (vec3_len a)"
    using pos by (cases a) (simp add: k_def)
  have "vec3_dot k k = 1" unfolding k_def using pos by (rule unit_axis)
  then have "vec3_dot k (vec3_transformMat4 v (rotation_matrix k r)) = vec3_dot k v"
    by (rule rotation_matrix_axis_dot)
  then have "vec3_dot (vec3_scale k (vec3_len a)) (vec3_transformMat4 v (rotation_matrix k r))
      = vec3_dot (vec3_scale k (vec3_len a)) v"
    by (simp only: dot_scale_left)
  then show ?thesis
    unfolding fromRotation_matrix [OF assms] k_def [symmetric] a [symmetric] .
qed

lemma fromRotation_len:
  assumes "EPSILON \<le> vec3_len a"
  shows "vec3_len (vec3_transformMat4 u (mat4_fromRotation out r a)) = vec3_len u"
  by (simp only: vec3_len_def fromRotation_dot [OF assms])

lemma normalize_scale:
  assumes "0 < vec3_len v"
  shows "vec3_normalize out v = vec3_scale v (1 / vec3_len v)"
proof -
  obtain x y z where v: "v = (x, y, z)" by (cases v)
  have "0 < x * x + y * y + z * z"
    using assms by (simp add: v vec3_len_def)
  then show ?thesis by (simp add: v vec3_len_def Let_def)
qed

lemma cross_lagrange:
  "vec3_dot (vec3_cross a b) (vec3_cross a b) = vec3_dot a a * vec3_dot b b - vec3_dot a b * vec3_dot a b"
  by (cases a; cases b) (auto simp: algebra_simps)

lemma pitch_axis_len:
  assumes "0 < vec3_len v" "0 < vec3_len u" "vec3_dot u v = 0"
  shows "vec3_len (vec3_cross (vec3_normalize o1 v) (vec3_normalize o2 u)) = 1"
proof -
  define a where "a = vec3_scale v (1 / vec3_len v)"
  define b where "b = vec3_scale u (1 / vec3_len u)"
  have "vec3_dot a a = 1" "vec3_dot b b = 1"
    unfolding a_def b_def using assms by (simp_all only: unit_axis)
  moreover have "vec3_dot a b = 0"
  proof -
    have "vec3_dot v u = 0" using assms(3) by (cases u; cases v) (simp add: algebra_simps)
    then show ?thesis unfolding a_def b_def by (simp only: dot_scale_scale mult_zero_left)
  qed
  ultimately have "vec3_dot (vec3_cross a b) (vec3_cross a b) = 1"
    by (simp add: cross_lagrange del: vec3_dot.simps vec3_cross.simps)
  moreover have "vec3_cross (vec3_normalize o1 v) (vec3_normalize o2 u) = vec3_cross a b"
    by (simp only: normalize_scale [OF assms(1)] normalize_scale [OF assms(2)] a_def b_def)
  ultimately show ?thesis
    by (simp only: vec3_len_def real_sqrt_one)
qed

lemma len_zero_sub:
  assumes "e \<noteq> t"
  shows "0 < vec3_len (vec3_subtract e t)"
proof -
  obtain x y z where v: "vec3_subtract e t = (x, y, z)" by (cases "vec3_subtract e t")
  have "(x, y, z) \<noteq> (0, 0, 0)" using assms sub_eq_zero v by metis
  then have "x \<noteq> 0 \<or> y \<noteq> 0 \<or> z \<noteq> 0" by simp
  then have "x * x + y * y + z * z \<noteq> 0"
    by (metis add_nonneg_eq_0_iff mult_eq_0_iff zero_le_square add_nonneg_nonneg)
  moreover have "0 \<le> x * x + y * y + z * z" by simp
  ultimately have "0 < x * x + y * y + z * z" by (simp only: less_le) simp
  then show ?thesis by (simp add: v vec3_len_def)
qed

lemma pivot_len:
  assumes "EPSILON \<le> vec3_len (worldUp c)" "EPSILON \<le> vec3_len (up c)"
  shows "EPSILON \<le> vec3_len (yaw_pivot c)"
  using assms by (simp add: yaw_pivot_def)

lemma lin_yaw_rotation: "scratch_linear (tempMat4 c) \<Longrightarrow> scratch_linear (yaw_rotation c d)"
  unfolding yaw_rotation_def by (rule lin_fromRotation)

lemma lin_pitch_rotation: "scratch_linear (tempMat4 c) \<Longrightarrow> scratch_linear (pitch_rotation c v d)"
  unfolding pitch_rotation_def by (rule lin_fromRotation)

lemma invariant_coincident:
  assumes "eye c' = target c'" "EPSILON \<le> vec3_len (worldUp c')" "scratch_linear (tempMat4 c')"
  shows "rotation_invariant c'"
  using assms by (simp add: rotation_invariant_def up_orthogonal_def sub_self dot_zero_right
      del: vec_simps_del)

lemma invariant_orbitYaw:
  assumes "rotation_invariant c"
  shows "rotation_invariant (orbitYaw c d)"
proof -
  from assms have orth: "vec3_dot (up c) (vec3_subtract (eye c) (target c)) = 0"
    and wu: "EPSILON \<le> vec3_len (worldUp c)" and lin: "scratch_linear (tempMat4 c)"
    and alt: "eye c = target c \<or> EPSILON \<le> vec3_len (up c)"
    by (simp_all add: rotation_invariant_def up_orthogonal_def del: vec_simps_del)
  have lin': "scratch_linear (yaw_rotation c d)" using lin by (rule lin_yaw_rotation)
  show ?thesis
  proof (cases "eye c = target c")
    case True
    then have "eye (orbitYaw c d) = target (orbitYaw c d)"
      by (simp add: orbitYaw_fields sub_self transform_zero [OF lin'] add_zero del: vec_simps_del)
    then show ?thesis
      using wu lin' by (intro invariant_coincident) (simp_all add: orbitYaw_fields)
  next
    case False
    with alt have ul: "EPSILON \<le> vec3_len (up c)" by simp
    have pl: "EPSILON \<le> vec3_len (yaw_pivot c)" using wu ul by (rule pivot_len)
    show ?thesis
      using orth wu lin' ul
      by (simp add: rotation_invariant_def up_orthogonal_def orbitYaw_fields sub_add_cancel
            yaw_rotation_def [of c d] fromRotation_dot [OF pl] fromRotation_len [OF pl]
            lin_fromRotation del: vec_simps_del)
  qed
qed

lemma invariant_yaw:
  assumes "rotation_invariant c"
  shows "rotation_invariant (yaw c d)"
proof -
  from assms have orth: "vec3_dot (up c) (vec3_subtract (eye c) (target c)) = 0"
    and wu: "EPSILON \<le> vec3_len (worldUp c)" and lin: "scratch_linear (tempMat4 c)"
    and alt: "eye c = target c \<or> EPSILON \<le> vec3_len (up c)"
    by (simp_all add: rotation_invariant_def up_orthogonal_def del: vec_simps_del)
  have lin': "scratch_linear (yaw_rotation c d)" using lin by (rule lin_yaw_rotation)
  show ?thesis
  proof (cases "eye c = target c")
    case True
    then have "eye (yaw c d) = target (yaw c d)"
      by (simp add: yaw_fields sub_self transform_zero [OF lin'] add_zero del: vec_simps_del)
    then show ?thesis
      using wu lin' by (intro invariant_coincident) (simp_all add: yaw_fields)
  next
    case False
    with alt have ul: "EPSILON \<le> vec3_len (up c)" by simp
    have pl: "EPSILON \<le> vec3_len (yaw_pivot c)" using wu ul by (rule pivot_len)
    have orth': "vec3_dot (up c) (vec3_subtract (target c) (eye c)) = 0"
      using orth by (simp add: dot_sub_swap [of _ "target c"] del: vec_simps_del)
    show ?thesis
    proof (cases "gimbalLock c")
      case True
      then show ?thesis
        using orth' wu lin' ul
        by (simp add: rotation_invariant_def up_orthogonal_def yaw_fields sub_add_neg
            dot_scale_right
            yaw_rotation_def [of c d] fromRotation_dot [OF pl] fromRotation_len [OF pl]
            lin_fromRotation del: vec_simps_del)
    next
      case False
      then have p: "yaw_pivot c = up c" by (simp add: yaw_pivot_def)
      show ?thesis
        using False orth' wu lin' ul fromRotation_axis_dot [OF pl, unfolded p]
        by (simp add: rotation_invariant_def up_orthogonal_def yaw_fields sub_add_neg
            dot_scale_right p
            yaw_rotation_def [of c d] lin_fromRotation del: vec_simps_del)
    qed
  qed
qed

lemma invariant_pitch:
  assumes "rotation_invariant c"
  shows "rotation_invariant (pitch c d)"
proof -
  from assms have orth: "vec3_dot (up c) (vec3_subtract (eye c) (target c)) = 0"
    and wu: "EPSILON \<le> vec3_len (worldUp c)" and lin: "scratch_linear (tempMat4 c)"
    and alt: "eye c = target c \<or> EPSILON \<le> vec3_len (up c)"
    by (simp_all add: rotation_invariant_def up_orthogonal_def del: vec_simps_del)
  define v where "v = vec3_subtract (target c) (eye c)"
  have lin': "scratch_linear (pitch_rotation c v d)" using lin by (rule lin_pitch_rotation)
  show ?thesis
  proof (cases "eye c = target c")
    case True
    then have "eye (pitch c d) = target (pitch c d)"
      using lin'
      by (simp add: pitch_fields v_def sub_self transform_zero add_zero del: vec_simps_del)
    then show ?thesis
      using wu lin' by (intro invariant_coincident) (simp_all add: pitch_fields v_def)
  next
    case False
    with alt have ul: "EPSILON \<le> vec3_len (up c)" by simp
    have orth': "vec3_dot (up c) v = 0"
      using orth by (simp add: v_def dot_sub_swap [of _ "target c"] del: vec_simps_del)
    have "target c \<noteq> eye c" using False by simp
    then have vl: "0 < vec3_len v" unfolding v_def by (rule len_zero_sub)
    have "vec3_len (vec3_cross (vec3_normalize (tempVec3c c) v) (vec3_normalize (tempVec3d c) (up c))) = 1"
      using vl len_pos [OF ul] orth' by (rule pitch_axis_len)
    then have pl: "EPSILON \<le> vec3_len (vec3_cross (vec3_normalize (tempVec3c c) v)
                                      (vec3_normalize (tempVec3d c) (up c)))"
      by (simp add: EPSILON_def)
    show ?thesis
      using orth orth' wu lin' ul False
      by (simp add: rotation_invariant_def up_orthogonal_def pitch_fields sub_add_neg
            dot_scale_right v_def [symmetric]
            pitch_rotation_def [of c v d] fromRotation_dot [OF pl] fromRotation_len [OF pl]
            del: vec_simps_del)
  qed
qed

lemma invariant_orbitPitch:
  assumes "rotation_invariant c"
  shows "rotation_invariant (orbitPitch c d)"
proof -
  from assms have orth: "vec3_dot (up c) (vec3_subtract (eye c) (target c)) = 0"
    and wu: "EPSILON \<le> vec3_len (worldUp c)" and lin: "scratch_linear (tempMat4 c)"
    and alt: "eye c = target c \<or> EPSILON \<le> vec3_len (up c)"
    by (simp_all add: rotation_invariant_def up_orthogonal_def del: vec_simps_del)
  define v where "v = vec3_subtract (eye c) (target c)"
  have lin': "scratch_linear (pitch_rotation c v d)" using lin by (rule lin_pitch_rotation)
  show ?thesis
  proof (cases "eye c = target c")
    case True
    then have "eye (orbitPitch c d) = target (orbitPitch c d)"
      using lin'
      by (simp add: orbitPitch_fields v_def sub_self transform_zero add_zero del: vec_simps_del)
    then show ?thesis
      using wu lin' by (intro invariant_coincident) (simp_all add: orbitPitch_fields v_def)
  next
    case False
    with alt have ul: "EPSILON \<le> vec3_len (up c)" by simp
    have orth': "vec3_dot (up c) v = 0"
      using orth by (simp add: v_def)
    have vl: "0 < vec3_len v" unfolding v_def using False by (rule len_zero_sub)
    have "vec3_len (vec3_cross (vec3_normalize (tempVec3c c) v) (vec3_normalize (tempVec3d c) (up c))) = 1"
      using vl len_pos [OF ul] orth' by (rule pitch_axis_len)
    then have pl: "EPSILON \<le> vec3_len (vec3_cross (vec3_normalize (tempVec3c c) v)
                                      (vec3_normalize (tempVec3d c) (up c)))"
      by (simp add: EPSILON_def)
    show ?thesis
      using orth orth' wu lin' ul False
      by (simp add: rotation_invariant_def up_orthogonal_def orbitPitch_fields sub_add_cancel
            v_def [symmetric]
            pitch_rotation_def [of c v d] fromRotation_dot [OF pl] fromRotation_len [OF pl]
            del: vec_simps_del)
  qed
qed

lemma invariant_exec:
  assumes "rotation_invariant c" "rotation_call x"
  shows "rotation_invariant (exec c x)"
proof (cases x)
  case (SetGimbalLock b)
  with assms show ?thesis
    by (simp add: rotation_invariant_def up_orthogonal_def set_gimbalLock_def del: vec_simps_del)
next
  case (SetConstrainPitch b)
  with assms show ?thesis
    by (simp add: rotation_invariant_def up_orthogonal_def set_constrainPitch_def del: vec_simps_del)
qed (use assms in \<open>simp_all add: invariant_yaw invariant_pitch invariant_orbitYaw invariant_orbitPitch\<close>)

lemma invariant_run:
  "rotation_invariant c \<Longrightarrow> \<forall>x \<in> set cs. rotation_call x \<Longrightarrow> rotation_invariant (run c cs)"
  unfolding run_def
  by (induction cs arbitrary: c) (simp_all add: invariant_exec)

lemma lin_scale_identity: "scratch_linear (mat4_scale mat4_identity v)"
  by (cases v) (simp add: scratch_linear_def mat4_identity_def)

lemma tempMat4_build:
  "scratch_linear (tempMat4 c) \<Longrightarrow> scratch_linear (tempMat4 (build c))"
  by (simp add: build_def Let_def lin_scale_identity del: mat4_scale.simps mat4_lookAt.simps)

lemma tempMat4_pan_steps:
  "tempMat4 (fst (pan_x cv p)) = tempMat4 (fst cv)"
  "tempMat4 (fst (pan_y cv p)) = tempMat4 (fst cv)"
  "tempMat4 (fst (pan_z cv p)) = tempMat4 (fst cv)"
  by (cases cv; simp add: Let_def del: vec_simps_del)+

lemma tempMat4_pan: "tempMat4 (pan c p) = tempMat4 c"
  by (cases p) (simp add: setDirty_def split_def Let_def tempMat4_pan_steps
        del: vec_simps_del pan_x.simps pan_y.simps pan_z.simps)

lemma linear_exec:
  assumes "scratch_linear (tempMat4 c)"
  shows "scratch_linear (tempMat4 (exec c x))"
proof (cases x)
  case GetViewMatrix
  then show ?thesis using assms by (simp add: get_viewMatrix_def Let_def tempMat4_build)
next
  case GetViewNormalMatrix
  then show ?thesis using assms by (simp add: get_viewNormalMatrix_def Let_def tempMat4_build)
next
  case (SetWorldAxis a)
  then show ?thesis using assms
    by (simp add: set_worldAxis_def setDirty_def Let_def split: sum.splits)
next
  case (OrbitYaw d)
  then show ?thesis using assms by (simp add: orbitYaw_fields lin_yaw_rotation)
next
  case (OrbitPitch d)
  then show ?thesis using assms by (simp add: orbitPitch_fields lin_pitch_rotation)
next
  case (Yaw d)
  then show ?thesis using assms by (simp add: yaw_fields lin_yaw_rotation)
next
  case (Pitch d)
  then show ?thesis using assms by (simp add: pitch_fields lin_pitch_rotation)
next
  case (Pan p)
  then show ?thesis using assms by (simp add: tempMat4_pan)
next
  case (Zoom d)
  then show ?thesis using assms by (simp add: zoom_def setDirty_def Let_def del: vec_simps_del)
next
  case (ViewFit b f)
  then show ?thesis using assms
    by (simp add: viewFit_def setDirty_def Let_def split_def del: vec_simps_del split: option.splits)
qed (use assms in \<open>simp_all add: set_worldScale_def set_projectionType_def set_eye_def
      set_target_def set_up_def set_gimbalLock_def set_constrainPitch_def setDirty_def\<close>)

lemma linear_run:
  "scratch_linear (tempMat4 c) \<Longrightarrow> scratch_linear (tempMat4 (run c cs))"
  unfolding run_def by (induction cs arbitrary: c) (simp_all add: linear_exec)

lemma linear_reachable: "scratch_linear (tempMat4 (run (new_Camera vd mb p q) cs))"
  by (rule linear_run) (simp add: new_Camera_def mat4_create_def lin_identity)

text \<open>C3, as amended. For every camera state that calls on a constructed camera can reach, in
  which up is orthogonal to (eye - target) and up and worldUp are both at least
  \<open>EPSILON\<close> = 1e-6 long, and for every sequence of calls to orbitYaw, orbitPitch, yaw and
  pitch with any angles and any settings of gimbalLock and constrainPitch, up remains
  orthogonal to (eye - target), exactly.\<close>

theorem rotations_keep_up_orthogonal:
  assumes "c = run (new_Camera vd mb p q) pre"
    and "up_orthogonal c"
    and "EPSILON \<le> vec3_len (up c)"
    and "EPSILON \<le> vec3_len (worldUp c)"
    and "\<forall>x \<in> set cs. rotation_call x"
  shows "up_orthogonal (run c cs)"
proof -
  have "scratch_linear (tempMat4 c)" unfolding assms(1) by (rule linear_reachable)
  with assms(2-4) have "rotation_invariant c" by (simp add: rotation_invariant_def)
  then have "rotation_invariant (run c cs)" using assms(5) by (rule invariant_run)
  then show ?thesis by (simp add: rotation_invariant_def)
qed

theorem rotations_keep_up_orthogonal_witness:
  "example_camera = run (new_Camera False (0, 0, 0, 0, 0, 0)
       \<lparr>ptype = ''perspective'', projMatrix = mat4_identity\<rparr>
       \<lparr>ptype = ''orthographic'', projMatrix = mat4_identity\<rparr>) []
   \<and> up_orthogonal example_camera
   \<and> EPSILON \<le> vec3_len (up example_camera)
   \<and> EPSILON \<le> vec3_len (worldUp example_camera)
   \<and> rotation_call (OrbitYaw 30) \<and> rotation_call (Pitch 20)
   \<and> rotation_call (SetGimbalLock False) \<and> rotation_call (Yaw 10)
   \<and> rotation_call (OrbitPitch (- 5))
   \<and> up_orthogonal (run example_camera
         [OrbitYaw 30, Pitch 20, SetGimbalLock False, Yaw 10, OrbitPitch (- 5)])"
proof -
  have h1: "example_camera = run (new_Camera False (0, 0, 0, 0, 0, 0)
       \<lparr>ptype = ''perspective'', projMatrix = mat4_identity\<rparr>
       \<lparr>ptype = ''orthographic'', projMatrix = mat4_identity\<rparr>) []"
    by (simp add: example_camera_def run_def)
  have h2: "up_orthogonal example_camera"
    by (simp add: up_orthogonal_def example_camera_def new_Camera_def)
  have h3: "EPSILON \<le> vec3_len (up example_camera)"
    by (simp add: example_camera_def new_Camera_def vec3_len_def EPSILON_def)
  have h4: "EPSILON \<le> vec3_len (worldUp example_camera)"
    by (simp add: example_camera_def new_Camera_def vec3_len_def EPSILON_def)
  have h5: "\<forall>x \<in> set [OrbitYaw 30, Pitch 20, SetGimbalLock False, Yaw 10, OrbitPitch (- 5)].
         rotation_call x"
    by simp
  from rotations_keep_up_orthogonal [OF h1 h2 h3 h4 h5] h1 h2 h3 h4
  show ?thesis by simp
qed

lemma sin_fit_half: "1 / 2 < sin (90 * DEGTORAD)"
proof -
  define x :: real where "x = 90 * DEGTORAD"
  define s where "s = sin x"
  have x2: "2 * x = 3.14159265" by (simp add: x_def DEGTORAD_def)
  have "pi / 2 < 2 * x" using pi_less_4 by (simp add: x2)
  moreover have "2 * x < 3 * pi / 2" using pi_ge_3 by (simp add: x2)
  ultimately have "cos (2 * x) < 0" by (rule cos_neg_between)
  moreover have "cos (2 * x) = 1 - 2 * s\<^sup>2" by (simp add: cos_double_sin s_def)
  ultimately have "1 / 2 < s\<^sup>2" by simp
  then have "(1 / 2)\<^sup>2 < s\<^sup>2" by (simp add: power2_eq_square)
  moreover have "0 \<le> s" using sin_fit_pos by (simp add: s_def x_def)
  ultimately have "1 / 2 < s" by (rule power2_less_imp_less)
  then show ?thesis by (simp add: s_def x_def)
qed

lemma sqrt_10000_sq: "sqrt 100000000 = 10000"
  using real_sqrt_abs [of 10000] by simp

lemma sqrt_tiny_sq: "sqrt (1 / 100000000000000) = 1 / 10000000"
  using real_sqrt_abs [of "1 / 10000000"] by (simp add: power2_eq_square)

text \<open>C3 as stated fails for an up vector shorter than \<open>EPSILON\<close>. With eye = (0,0,-10000),
  target at the origin, up = (0, 1e-7, 0) and both flags off, up is orthogonal to
  (eye - target). \<open>pitch(90)\<close> leaves its rotation in the scratch matrix; the following
  \<open>yaw(90)\<close> finds its pivot up too short, builds no matrix and applies the pitch rotation to
  (target - eye) once more, while up stays. The dot product of up and (eye - target) is then
  -sin (90 * 0.0174532925) / 1000, more than 1e-4 in absolute value.\<close>

theorem short_up_breaks_orthogonality:
  "up_orthogonal (run example_camera
      [SetEye (Some (0, 0, - 10000)), SetUp (Some (0, 1 / 10000000, 0)),
       SetConstrainPitch False, SetGimbalLock False])
   \<and> \<not> up_orthogonal (run (run example_camera
      [SetEye (Some (0, 0, - 10000)), SetUp (Some (0, 1 / 10000000, 0)),
       SetConstrainPitch False, SetGimbalLock False]) [Pitch 90, Yaw 90])
   \<and> 1 / 10000 < \<bar>vec3_dot
        (up (run (run example_camera
           [SetEye (Some (0, 0, - 10000)), SetUp (Some (0, 1 / 10000000, 0)),
            SetConstrainPitch False, SetGimbalLock False]) [Pitch 90, Yaw 90]))
        (vec3_subtract
          (eye (run (run example_camera
             [SetEye (Some (0, 0, - 10000)), SetUp (Some (0, 1 / 10000000, 0)),
              SetConstrainPitch False, SetGimbalLock False]) [Pitch 90, Yaw 90]))
          (target (run (run example_camera
             [SetEye (Some (0, 0, - 10000)), SetUp (Some (0, 1 / 10000000, 0)),
              SetConstrainPitch False, SetGimbalLock False]) [Pitch 90, Yaw 90])))\<bar>"
proof -
  define c0 where "c0 = run example_camera
      [SetEye (Some (0, 0, - 10000)), SetUp (Some (0, 1 / 10000000, 0)),
       SetConstrainPitch False, SetGimbalLock False]"
  define c1 where "c1 = pitch c0 90"
  define c2 where "c2 = yaw c1 90"
  define s where "s = sin (90 * DEGTORAD)"
  define k where "k = cos (90 * DEGTORAD)"
  have sk: "k * k + s * s = 1" by (simp add: s_def k_def)
  have r: "run c0 [Pitch 90, Yaw 90] = c2" by (simp add: run_def c1_def c2_def)
  have c0: "eye c0 = (0, 0, - 10000)" "target c0 = (0, 0, 0)" "up c0 = (0, 1 / 10000000, 0)"
    "\<not> gimbalLock c0" "\<not> constrainPitch c0" "tempMat4 c0 = mat4_identity"
    by (simp_all add: c0_def run_def set_eye_def set_up_def set_gimbalLock_def
          set_constrainPitch_def setDirty_def example_camera_def new_Camera_def mat4_create_def)
  have o0: "up_orthogonal c0" by (simp add: up_orthogonal_def c0)
  have rej: "\<not> pitch_rejects c0 v 90" for v by (simp add: pitch_rejects_def c0)
  have m1: "pitch_rotation c0 (vec3_subtract (target c0) (eye c0)) 90 = rotation_matrix (- 1, 0, 0) (90 * DEGTORAD)"
    by (simp add: pitch_rotation_def c0 sqrt_10000_sq sqrt_tiny_sq EPSILON_def Let_def)
  have c1: "eye c1 = (0, 0, - 10000)" "target c1 = (0, s * 10000, k * 10000 - 10000)"
    "up c1 = (0, k / 10000000, - s / 10000000)" "\<not> gimbalLock c1"
    "tempMat4 c1 = rotation_matrix (- 1, 0, 0) (90 * DEGTORAD)"
    unfolding c1_def
    by (simp_all add: pitch_fields rej m1 del: vec_simps_del rotation_matrix.simps)
       (simp_all add: c0 pitch_def setDirty_def Let_def s_def k_def)
  have "vec3_dot (up c1) (up c1) = (1 / 10000000)\<^sup>2"
  proof -
    have "vec3_dot (up c1) (up c1) = (k * k + s * s) * (1 / 10000000)\<^sup>2"
      by (simp add: c1 power2_eq_square algebra_simps)
    then show ?thesis by (simp add: sk)
  qed
  then have "vec3_len (up c1) = 1 / 10000000"
    unfolding vec3_len_def by (simp only: real_sqrt_abs)
  then have short: "\<bar>sqrt (vec3_dot (up c1) (up c1))\<bar> < EPSILON"
    by (simp add: vec3_len_def EPSILON_def)
  have m2: "yaw_rotation c1 90 = rotation_matrix (- 1, 0, 0) (90 * DEGTORAD)"
  proof -
    obtain x y z where u: "up c1 = (x, y, z)" by (cases "up c1")
    with short have "\<bar>sqrt (x * x + y * y + z * z)\<bar> < EPSILON" by simp
    then show ?thesis
      by (simp add: yaw_rotation_def yaw_pivot_def c1(4,5) u del: rotation_matrix.simps)
  qed
  have c2: "eye c2 = (0, 0, - 10000)"
    "target c2 = (0, 2 * s * k * 10000, (k * k - s * s) * 10000 - 10000)"
    "up c2 = (0, k / 10000000, - s / 10000000)"
    unfolding c2_def
    by (simp_all add: yaw_fields m2 c1 Let_def) (simp_all add: s_def k_def algebra_simps)
  have "vec3_dot (up c2) (vec3_subtract (eye c2) (target c2)) = - (s * (k * k + s * s)) / 1000"
    by (simp add: c2 algebra_simps)
  then have d: "vec3_dot (up c2) (vec3_subtract (eye c2) (target c2)) = - s / 1000"
    by (simp add: sk)
  have "1 / 2 < s" unfolding s_def by (rule sin_fit_half)
  with d have big: "1 / 10000 < \<bar>vec3_dot (up c2) (vec3_subtract (eye c2) (target c2))\<bar>"
    by simp
  then have "\<not> up_orthogonal c2" by (simp add: up_orthogonal_def)
  with o0 big show ?thesis unfolding c0_def [symmetric] r by simp
qed

subsection \<open>The pitch constraint\<close>

















end
